theory Spec2Isabelle
  imports Main "HOL-Library.Sublist"
begin

section \<open>JavaScript string operations used by the sources\<close>

text \<open>
  A JavaScript string is modelled as a \<^typ>\<open>string\<close>: one \<^typ>\<open>char\<close> per code unit, for
  code units below 256. Every operation below is the one the sources call, with the
  arguments the sources pass.
\<close>

abbreviation nl :: string where
  "nl \<equiv> [CHR 0x0A]"

text \<open>The white space \<open>String.prototype.trim\<close> removes, among the code units below 256.\<close>

definition is_ws :: "char \<Rightarrow> bool" where
  "is_ws c = (c = CHR 0x09 \<or> c = CHR 0x0A \<or> c = CHR 0x0B \<or> c = CHR 0x0C \<or> c = CHR 0x0D
      \<or> c = CHR 0x20 \<or> c = CHR 0xA0)"

definition trim :: "string \<Rightarrow> string" where
  "trim s = rev (dropWhile is_ws (rev (dropWhile is_ws s)))"

text \<open>\<open>s.startsWith(p)\<close>.\<close>

definition startsWith :: "string \<Rightarrow> string \<Rightarrow> bool" where
  "startsWith s p = prefix p s"

text \<open>\<open>s.includes(sub)\<close>: \<open>sub\<close> occurs somewhere in \<open>s\<close>.\<close>

fun includes_str :: "string \<Rightarrow> string \<Rightarrow> bool" where
  "includes_str [] sub = (sub = [])"
| "includes_str (c # cs) sub = (prefix sub (c # cs) \<or> includes_str cs sub)"

text \<open>
  \<open>s.split(sep)\<close> for a non-empty separator: the pieces between the occurrences of
  \<open>sep\<close>, found from the left, an occurrence never overlapping the one before it.
  The empty string splits into one empty piece.
\<close>

fun split_ne :: "string \<Rightarrow> string \<Rightarrow> string list" where
  "split_ne sep [] = [[]]"
| "split_ne sep (c # cs) =
     (if prefix sep (c # cs) then [] # split_ne sep (drop (length sep - 1) cs)
      else (case split_ne sep cs of [] \<Rightarrow> [[c]] | p # ps \<Rightarrow> (c # p) # ps))"

text \<open>With the empty separator JavaScript splits into the single code units.\<close>

definition split :: "string \<Rightarrow> string \<Rightarrow> string list" where
  "split s sep = (if sep = [] then map (\<lambda>c. [c]) s else split_ne sep s)"

text \<open>
  \<open>s.replace(pat, rep)\<close> with a string pattern: only the first occurrence is replaced.
  (The sources pass the replacement \<open>''\<close>, which holds no \<open>$\<close> pattern.)
\<close>

fun replace :: "string \<Rightarrow> string \<Rightarrow> string \<Rightarrow> string" where
  "replace [] pat rep = (if pat = [] then rep else [])"
| "replace (c # cs) pat rep =
     (if prefix pat (c # cs) then rep @ drop (length pat) (c # cs)
      else c # replace cs pat rep)"

text \<open>
  \<open>path.basename(p)\<close> on a POSIX host: the part after the last slash, trailing slashes
  ignored. Git prints the paths of changed files with forward slashes.
\<close>

definition basename :: "string \<Rightarrow> string" where
  "basename p = rev (takeWhile (\<lambda>c. c \<noteq> CHR ''/'') (dropWhile (\<lambda>c. c = CHR ''/'') (rev p)))"

section \<open>Data model\<close>

text \<open>
  A file entry of a step, \<open>{ file, explain?, collapse? }\<close> (its \<open>file\<close> is \<open>file_name\<close> here,
  its \<open>explain\<close> is \<open>file_explain\<close>), and a step,
  \<open>{ name, commit, explain?, diff }\<close>. A property that an object does not have is \<open>None\<close>:
  the entries and steps the tool computes carry no \<open>explain\<close>; the user adds it by editing
  \<open>tuture.yml\<close>.
\<close>

record fileDiff =
  file_name :: string
  file_explain :: "string option"
  collapse :: "bool option"

record step =
  name :: string
  commit :: string
  explain :: "string option"
  diff :: "fileDiff list"

text \<open>The metadata \<open>promptMetaData\<close> returns, and the tutorial object of \<open>tuture.yml\<close>.\<close>

record metadata =
  tutorial_name :: string
  version :: string
  language :: string
  topics :: "string list option"
  email :: "string option"

record tutorial =
  meta :: metadata
  steps :: "step list"

text \<open>
  The result of \<open>gitdiff-parser\<close> on a diff, as far as \<open>parseDiff\<close> touches it: per file its
  hunks, and per hunk the \<open>isPlain\<close> property that \<open>parseDiff\<close> sets.
\<close>

record hunk =
  hunk_content :: string
  isPlain :: "bool option"

record diffFile =
  diff_path :: string
  hunks :: "hunk list"

record commitDiff =
  cd_commit :: string
  cd_diff :: "diffFile list"

section \<open>Environment and file system\<close>

text \<open>
  What the program reads from outside itself:
  \<^item> \<open>git args\<close>: the run of the Git binary with these arguments, as \<open>runGitCommand\<close> sees it:
    exit code (\<open>None\<close> when a signal ended the process), captured stdout, captured stderr;
  \<^item> \<open>gitInstalled\<close>: whether \<open>which\<close> finds \<open>git\<close>;
  \<^item> \<open>ignoreFiles\<close>: the list of ignore globs exported by \<open>./config\<close>;
  \<^item> \<open>minimatch name pattern\<close>: the glob matcher of the \<open>minimatch\<close> package;
  \<^item> \<open>parser_parse\<close>: \<open>gitdiff-parser\<close>'s \<open>parse\<close>, which may throw;
  \<^item> \<open>tuturePath\<close>: \<open>path.join(__dirname, '..', 'bin', 'tuture')\<close>, and \<open>win32\<close>: whether
    \<open>process.platform\<close> is \<open>win32\<close>;
  \<^item> \<open>prompt_metadata\<close>, \<open>confirm_init\<close>, \<open>confirm_destroy\<close>: the user's answers to the
    prompts, \<open>None\<close> when the user cancels;
  \<^item> \<open>io_fault p\<close>: the message of the error that creating or writing \<open>p\<close> throws, if any.
\<close>

datatype path = TutureRoot | TutureJson | DiffJson | TutureYml | Gitignore | HookPath

record env =
  git :: "string list \<Rightarrow> nat option \<times> string \<times> string"
  gitInstalled :: bool
  ignoreFiles :: "string list"
  minimatch :: "string \<Rightarrow> string \<Rightarrow> bool"
  parser_parse :: "string \<Rightarrow> string + diffFile list"
  tuturePath :: string
  win32 :: bool
  prompt_metadata :: "metadata option"
  confirm_init :: "bool option"
  confirm_destroy :: "bool option"
  io_fault :: "path \<Rightarrow> string option"

text \<open>
  The content of \<open>tuture.yml\<close>: a document that \<open>yaml.safeLoad\<close> loads into a tutorial
  object, or one on which it throws with the given message.
\<close>

datatype yml = Doc tutorial | Malformed string

datatype message = Fatal string | Success string

text \<open>
  The working directory and the process: the support directory \<open>tutureRoot\<close> with its two
  files, \<open>tuture.yml\<close>, \<open>.gitignore\<close>, the \<open>.git\<close> directory with its post-commit hook, the
  lines printed through \<open>signale\<close>, and the promise rejections nobody handles.
\<close>

record world =
  tutureRoot :: bool
  tuture_json :: "tutorial option"
  diff_json :: "commitDiff list option"
  tuture_yml :: "yml option"
  gitignore :: "string option"
  dotgit :: bool
  hook :: "string option"
  console :: "message list"
  unhandled :: "string list"

text \<open>
  How a command ends: its promise resolves, the process exits with a code
  (\<open>process.exit\<close>), or its promise rejects with an error nobody catches (the process then
  ends with a warning under Node 8 to 14, and with status 1 from Node 15).
\<close>

datatype outcome = Completed | Exit nat | Rejected string

section \<open>The Git interaction layer\<close>

definition isGitAvailable :: "env \<Rightarrow> bool" where
  "isGitAvailable e = gitInstalled e"

text \<open>
  \<open>runGitCommand\<close>: resolves with stdout on exit code 0, rejects with stderr otherwise.
  (The commands run it only after \<open>isGitAvailable\<close>; a Git binary that cannot be started
  at all is not modelled.)
\<close>

definition runGitCommand :: "env \<Rightarrow> string list \<Rightarrow> string + string" where
  "runGitCommand e args =
     (case git e args of (code, out, err) \<Rightarrow> if code = Some 0 then Inr out else Inl err)"

text \<open>\<open>initGit\<close>: a successful \<open>git init\<close> creates \<open>.git\<close>.\<close>

definition initGit :: "env \<Rightarrow> world \<Rightarrow> (string + unit) \<times> world" where
  "initGit e w =
     (case runGitCommand e [''init''] of
        Inl err \<Rightarrow> (Inl err, w)
      | Inr _ \<Rightarrow> (Inr (), w\<lparr>dotgit := True\<rparr>))"

text \<open>\<open>getGitLogs\<close>: the \<open>try\<close> holds the whole body, and the \<open>catch\<close> returns \<open>[]\<close>.\<close>

definition getGitLogs :: "env \<Rightarrow> string + string list" where
  "getGitLogs e =
     (case (case runGitCommand e [''log'', ''--oneline'', ''--no-merges''] of
              Inl err \<Rightarrow> Inl err
            | Inr output \<Rightarrow> Inr (split (trim output) nl)) of
        Inl err \<Rightarrow> Inr []
      | Inr logs \<Rightarrow> Inr logs)"

definition parseDiff :: "env \<Rightarrow> string \<Rightarrow> string + diffFile list" where
  "parseDiff e d =
     (case parser_parse e d of
        Inl err \<Rightarrow> Inl err
      | Inr files \<Rightarrow>
          Inr (map (\<lambda>f. f\<lparr>hunks := map (\<lambda>h. h\<lparr>isPlain := Some False\<rparr>) (hunks f)\<rparr>) files))"

text \<open>Whether a changed file is ignored: some pattern matches its base name.\<close>

definition ignored :: "env \<Rightarrow> string \<Rightarrow> bool" where
  "ignored e f = list_ex (\<lambda>pattern. minimatch e (basename f) pattern) (ignoreFiles e)"

definition getGitDiff :: "env \<Rightarrow> string \<Rightarrow> string + fileDiff list" where
  "getGitDiff e c =
     (case runGitCommand e [''show'', c, ''--name-only''] of
        Inl err \<Rightarrow> Inl err
      | Inr output \<Rightarrow>
          (let changedFiles = split (last (split output (nl @ nl))) nl;
               changedFiles = butlast changedFiles
           in Inr (map (\<lambda>f. \<lparr>file_name = f, file_explain = None, collapse = None\<rparr>)
                    (filter (\<lambda>f. \<not> ignored e f) changedFiles))))"

text \<open>
  \<open>Promise.all\<close> over promises that have settled: the list of values, or a rejection. Of
  several rejections JavaScript reports the one that settled first, which depends on the
  timing of the Git processes; the model reports the first in list order, so where several
  fetches fail, the message may be that of another one. Where a statement below names the
  message of a rejection, one promise only rejects.
\<close>

fun promise_all :: "(string + 'a) list \<Rightarrow> string + 'a list" where
  "promise_all [] = Inr []"
| "promise_all (p # ps) =
     (case p of
        Inl err \<Rightarrow> Inl err
      | Inr v \<Rightarrow> (case promise_all ps of Inl err \<Rightarrow> Inl err | Inr vs \<Rightarrow> Inr (v # vs)))"

text \<open>\<open>fs.writeFileSync\<close> of \<open>diff.json\<close>: it throws when the support directory is missing.\<close>

definition write_diff_json :: "env \<Rightarrow> commitDiff list \<Rightarrow> world \<Rightarrow> (string + unit) \<times> world" where
  "write_diff_json e ds w =
     (case io_fault e DiffJson of
        Some err \<Rightarrow> (Inl err, w)
      | None \<Rightarrow>
          if tutureRoot w then (Inr (), w\<lparr>diff_json := Some ds\<rparr>)
          else (Inl ''ENOENT: no such file or directory'', w))"

text \<open>
  \<open>storeDiff\<close>: one full-diff fetch per commit. The function neither awaits nor returns
  \<open>Promise.all(diffPromises).then(...)\<close>, so its own promise resolves at once, whatever the
  fetches do: the caller gets \<open>undefined\<close>. The detached chain writes \<open>diff.json\<close> once every
  fetch has resolved; if a fetch rejects, or the write throws, the rejection is handled by
  nobody: Node (up to version 14; the tool asks for 8 or later) prints a warning for it and
  goes on. The model runs the detached chain at the call and records such a rejection in
  \<open>unhandled\<close>; the caller sees nothing of either. From version 15, Node ends the process
  with status 1 at such a rejection, outside every \<open>try\<close>: the statements that evaluate a
  run with a failing full-diff fetch describe Node 8 to 14.
\<close>

definition fetchDiff :: "env \<Rightarrow> string \<Rightarrow> string + commitDiff" where
  "fetchDiff e c =
     (case runGitCommand e [''show'', c] of
        Inl err \<Rightarrow> Inl err
      | Inr output \<Rightarrow>
          (case parseDiff e (last (split output (nl @ nl))) of
             Inl err \<Rightarrow> Inl err
           | Inr d \<Rightarrow> Inr \<lparr>cd_commit = c, cd_diff = d\<rparr>))"

definition storeDiff :: "env \<Rightarrow> string list \<Rightarrow> world \<Rightarrow> world" where
  "storeDiff e commits w =
     (case promise_all (map (fetchDiff e) commits) of
        Inl err \<Rightarrow> w\<lparr>unhandled := unhandled w @ [err]\<rparr>
      | Inr diffs \<Rightarrow>
          (case write_diff_json e diffs w of
             (Inl err, w') \<Rightarrow> w'\<lparr>unhandled := unhandled w' @ [err]\<rparr>
           | (Inr _, w') \<Rightarrow> w'))"

text \<open>\<open>getGitHook\<close>: on Windows every backslash of the path becomes a slash.\<close>

definition getGitHook :: "env \<Rightarrow> string" where
  "getGitHook e =
     (let tuturePath = (if win32 e
                        then map (\<lambda>c. if c = CHR 0x5C then CHR ''/'' else c) (tuturePath e)
                        else tuturePath e)
      in ''#!/bin/sh'' @ nl @ tuturePath @ '' reload'' @ nl)"

text \<open>Writing the hook file needs the \<open>.git\<close> directory (with its \<open>hooks\<close>).\<close>

definition write_hook :: "env \<Rightarrow> string \<Rightarrow> world \<Rightarrow> (string + unit) \<times> world" where
  "write_hook e s w =
     (case io_fault e HookPath of
        Some err \<Rightarrow> (Inl err, w)
      | None \<Rightarrow>
          if dotgit w then (Inr (), w\<lparr>hook := Some s\<rparr>)
          else (Inl ''ENOENT: no such file or directory'', w))"

definition appendGitHook :: "env \<Rightarrow> world \<Rightarrow> (string + unit) \<times> world" where
  "appendGitHook e w =
     (let reloadHook = getGitHook e in
      case hook w of
        None \<Rightarrow> write_hook e reloadHook w
      | Some h \<Rightarrow>
          if \<not> includes_str h ''tuture reload'' then write_hook e (h @ reloadHook) w
          else (Inr (), w))"

definition removeGitHook :: "env \<Rightarrow> world \<Rightarrow> (string + unit) \<times> world" where
  "removeGitHook e w =
     (let reloadHook = getGitHook e in
      case hook w of
        None \<Rightarrow> (Inr (), w)
      | Some h \<Rightarrow>
          if h = reloadHook then (Inr (), w\<lparr>hook := None\<rparr>)
          else write_hook e (replace h ''tuture reload'' []) w)"

section \<open>The step synchronizer\<close>

definition ifTutureSuiteExists :: "world \<Rightarrow> bool" where
  "ifTutureSuiteExists w = (tutureRoot w \<and> tuture_yml w \<noteq> None)"

text \<open>\<open>fs.remove\<close> deletes a file or a whole directory and accepts a missing one.\<close>

definition removeTutureSuite :: "world \<Rightarrow> world" where
  "removeTutureSuite w =
     (let w = w\<lparr>tuture_yml := None\<rparr>
      in w\<lparr>tutureRoot := False, tuture_json := None, diff_json := None\<rparr>)"

text \<open>\<open>errAndExit\<close>: one fatal line, then \<open>process.exit(1)\<close>.\<close>

definition errAndExit :: "string \<Rightarrow> world \<Rightarrow> world \<times> outcome" where
  "errAndExit msg w =
     (w\<lparr>console := console w @ [Fatal (replace (trim msg) ''fatal: '' [])]\<rparr>, Exit 1)"

definition success :: "string \<Rightarrow> world \<Rightarrow> world" where
  "success msg w = w\<lparr>console := console w @ [Success msg]\<rparr>"

definition defaultValues :: metadata where
  "defaultValues =
     \<lparr>tutorial_name = ''My Awesome Tutorial'', version = ''0.0.1'', language = ''en'',
      topics = None, email = None\<rparr>"

text \<open>\<open>promptMetaData\<close>: a cancelled prompt runs \<open>onCancel\<close>, which exits.\<close>

definition promptMetaData :: "env \<Rightarrow> bool \<Rightarrow> world \<Rightarrow> (world \<times> outcome) + metadata" where
  "promptMetaData e shouldPrompt w =
     (if shouldPrompt
      then (case prompt_metadata e of None \<Rightarrow> Inl (errAndExit ''Aborted!'' w) | Some m \<Rightarrow> Inr m)
      else Inr defaultValues)"

text \<open>
  \<open>makeSteps\<close>: the log lines oldest first, without those whose message starts with
  \<open>tuture:\<close>; the message is the line from index 8, the commit its first 7 characters. The
  result is the array of the promises of the steps, each as it settles.
\<close>

definition makeSteps :: "env \<Rightarrow> world \<Rightarrow> (string + (string + step) list) \<times> world" where
  "makeSteps e w =
     (case getGitLogs e of
        Inl err \<Rightarrow> (Inl err, w)
      | Inr logs \<Rightarrow>
          (let logs = filter (\<lambda>log. \<not> startsWith (drop 8 log) ''tuture:'') (rev logs);
               commits = map (take 7) logs;
               w' = storeDiff e commits w
           in (Inr (map (\<lambda>(log, idx).
                          (case getGitDiff e (commits ! idx) of
                             Inl err \<Rightarrow> Inl err
                           | Inr d \<Rightarrow>
                               Inr \<lparr>name = drop 8 log, commit = commits ! idx,
                                    explain = None, diff = d\<rparr>))
                      (zip logs [0..<length logs])),
               w')))"

definition getSteps :: "env \<Rightarrow> world \<Rightarrow> (string + step list) \<times> world" where
  "getSteps e w =
     (case makeSteps e w of
        (Inl err, w') \<Rightarrow> (Inl err, w')
      | (Inr resArr, w') \<Rightarrow>
          (case promise_all resArr of
             Inl err \<Rightarrow> (Inl err, w')
           | Inr res \<Rightarrow> (Inr res, success ''Diff files are created!'' w')))"

text \<open>\<open>writeTuture\<close>: first \<open>tuture.json\<close> in the support directory, then \<open>tuture.yml\<close>.\<close>

definition write_tuture_json :: "env \<Rightarrow> tutorial \<Rightarrow> world \<Rightarrow> (string + unit) \<times> world" where
  "write_tuture_json e t w =
     (case io_fault e TutureJson of
        Some err \<Rightarrow> (Inl err, w)
      | None \<Rightarrow>
          if tutureRoot w then (Inr (), w\<lparr>tuture_json := Some t\<rparr>)
          else (Inl ''ENOENT: no such file or directory'', w))"

definition write_tuture_yml :: "env \<Rightarrow> tutorial \<Rightarrow> world \<Rightarrow> (string + unit) \<times> world" where
  "write_tuture_yml e t w =
     (case io_fault e TutureYml of
        Some err \<Rightarrow> (Inl err, w)
      | None \<Rightarrow> (Inr (), w\<lparr>tuture_yml := Some (Doc t)\<rparr>))"

definition writeTuture :: "env \<Rightarrow> tutorial \<Rightarrow> world \<Rightarrow> (string + unit) \<times> world" where
  "writeTuture e t w =
     (case write_tuture_json e t w of
        (Inl err, w') \<Rightarrow> (Inl err, w')
      | (Inr _, w') \<Rightarrow> write_tuture_yml e t w')"

definition write_gitignore :: "env \<Rightarrow> string \<Rightarrow> world \<Rightarrow> (string + unit) \<times> world" where
  "write_gitignore e s w =
     (case io_fault e Gitignore of
        Some err \<Rightarrow> (Inl err, w)
      | None \<Rightarrow> (Inr (), w\<lparr>gitignore := Some s\<rparr>))"

definition appendGitignore :: "env \<Rightarrow> world \<Rightarrow> (string + unit) \<times> world" where
  "appendGitignore e w =
     (let ignoreRules = ''# Tuture supporting files'' @ nl @ nl @ ''.tuture'' @ nl in
      case gitignore w of
        None \<Rightarrow> write_gitignore e ignoreRules w
      | Some g \<Rightarrow>
          if \<not> includes_str g ''.tuture'' then write_gitignore e (g @ nl @ ignoreRules) w
          else (Inr (), w))"

text \<open>\<open>fs.mkdirSync\<close> throws when the directory is already there.\<close>

definition mkdirSync_tutureRoot :: "env \<Rightarrow> world \<Rightarrow> (string + unit) \<times> world" where
  "mkdirSync_tutureRoot e w =
     (case io_fault e TutureRoot of
        Some err \<Rightarrow> (Inl err, w)
      | None \<Rightarrow>
          if tutureRoot w then (Inl ''EEXIST: file already exists'', w)
          else (Inr (), w\<lparr>tutureRoot := True\<rparr>))"

text \<open>
  \<open>initTuture\<close> up to and including \<open>fs.mkdirSync(tutureRoot)\<close>: either the command has
  ended, or the metadata object is there and the support directory has just been created.
\<close>

definition init_prepare :: "env \<Rightarrow> bool \<Rightarrow> world \<Rightarrow> (world \<times> outcome) + (metadata \<times> world)" where
  "init_prepare e yes w =
     (if ifTutureSuiteExists w
      then Inl (success ''Tuture has already been initialized!'' w, Exit 0)
      else if \<not> isGitAvailable e
      then Inl (errAndExit ''Git is not installed on your machine!'' w)
      else
        (case (if dotgit w then Inr w
               else (case (if yes then Some True else confirm_init e) of
                       None \<Rightarrow> Inl (errAndExit ''Aborted!'' w)
                     | Some answer \<Rightarrow>
                         if \<not> answer then Inl (errAndExit ''Aborted!'' w)
                         else (case initGit e w of
                                 (Inl err, w') \<Rightarrow> Inl (w', Rejected err)
                               | (Inr _, w') \<Rightarrow> Inr (success ''Git repo is initialized!'' w')))) of
           Inl res \<Rightarrow> Inl res
         | Inr w1 \<Rightarrow>
             (case promptMetaData e (\<not> yes) w1 of
                Inl res \<Rightarrow> Inl res
              | Inr m \<Rightarrow>
                  (case mkdirSync_tutureRoot e w1 of
                     (Inl err, w2) \<Rightarrow> Inl (w2, Rejected err)
                   | (Inr _, w2) \<Rightarrow> Inr (m, w2)))))"

text \<open>The body of the \<open>try\<close> of \<open>initTuture\<close>: any throw leaves it with the error.\<close>

definition init_try :: "env \<Rightarrow> metadata \<Rightarrow> world \<Rightarrow> (string + unit) \<times> world" where
  "init_try e m w =
     (case getSteps e w of
        (Inl err, w1) \<Rightarrow> (Inl err, w1)
      | (Inr s, w1) \<Rightarrow>
          (case writeTuture e \<lparr>meta = m, steps = s\<rparr> w1 of
             (Inl err, w2) \<Rightarrow> (Inl err, w2)
           | (Inr _, w2) \<Rightarrow>
               (case appendGitignore e (success ''tuture.yml is created!'' w2) of
                  (Inl err, w3) \<Rightarrow> (Inl err, w3)
                | (Inr _, w3) \<Rightarrow> appendGitHook e w3)))"

definition initTuture :: "env \<Rightarrow> bool \<Rightarrow> world \<Rightarrow> world \<times> outcome" where
  "initTuture e yes w =
     (case init_prepare e yes w of
        Inl res \<Rightarrow> res
      | Inr (m, w1) \<Rightarrow>
          (case init_try e m w1 of
             (Inl err, w2) \<Rightarrow> errAndExit err (removeTutureSuite w2)
           | (Inr _, w2) \<Rightarrow> (w2, Completed)))"

text \<open>
  The merge of \<open>reloadTuture\<close>: the two nested \<open>forEach\<close> loops. The outer one visits the
  indices of the new steps, the inner one every old step, and each old step with the commit
  of the visited new step is stored at that index.
\<close>

definition reconcile :: "step list \<Rightarrow> step list \<Rightarrow> step list" where
  "reconcile oldSteps currentSteps =
     foldl (\<lambda>cs index.
              (let currentStep = cs ! index
               in foldl (\<lambda>cs' step. if commit currentStep = commit step
                                      then cs'[index := step] else cs')
                    cs oldSteps))
       currentSteps [0..<length currentSteps]"

text \<open>\<open>yaml.safeLoad(fs.readFileSync('tuture.yml'))\<close>.\<close>

definition load_tuture_yml :: "world \<Rightarrow> string + tutorial" where
  "load_tuture_yml w =
     (case tuture_yml w of
        None \<Rightarrow> Inl ''ENOENT: no such file or directory''
      | Some (Malformed err) \<Rightarrow> Inl err
      | Some (Doc t) \<Rightarrow> Inr t)"

definition reloadTuture :: "env \<Rightarrow> world \<Rightarrow> world \<times> outcome" where
  "reloadTuture e w =
     (if \<not> ifTutureSuiteExists w then errAndExit ''Tuture has not been initialized!'' w
      else if \<not> isGitAvailable e then errAndExit ''Git is not installed on your machine!'' w
      else
        (case load_tuture_yml w of
           Inl err \<Rightarrow> errAndExit err w
         | Inr tuture \<Rightarrow>
             (case getSteps e w of
                (Inl err, w1) \<Rightarrow> (w1, Rejected err)
              | (Inr currentSteps, w1) \<Rightarrow>
                  (case writeTuture e (tuture\<lparr>steps := reconcile (steps tuture) currentSteps\<rparr>) w1 of
                     (Inl err, w2) \<Rightarrow> (w2, Rejected err)
                   | (Inr _, w2) \<Rightarrow> (success ''Reload complete!'' w2, Completed)))))"

definition destroyTuture :: "env \<Rightarrow> bool \<Rightarrow> world \<Rightarrow> world \<times> outcome" where
  "destroyTuture e force w =
     (if \<not> ifTutureSuiteExists w then errAndExit ''No Tuture tutorial to destroy!'' w
      else
        (case (if force then Some True else confirm_destroy e) of
           None \<Rightarrow> errAndExit ''Aborted!'' w
         | Some answer \<Rightarrow>
             if \<not> answer then errAndExit ''Aborted!'' w
             else (case removeGitHook e w of
                     (Inl err, w1) \<Rightarrow> (w1, Rejected err)
                   | (Inr _, w1) \<Rightarrow>
                       (success ''Tuture suite has been destroyed!'' (removeTutureSuite w1),
                        Completed))))"

section \<open>What Git prints\<close>







text \<open>
  \<open>getGitLogs\<close> trims the whole output, so the last line, the one of the oldest commit,
  loses the white space at its end: the history as the tool reads it has the subject of
  the oldest commit without its trailing white space.
\<close>

definition rtrim :: "string \<Rightarrow> string" where
  "rtrim s = rev (dropWhile is_ws (rev s))"

definition as_read :: "(string \<times> string) list \<Rightarrow> (string \<times> string) list" where
  "as_read cs = (if cs = [] then [] else butlast cs @ [(fst (last cs), rtrim (snd (last cs)))])"




text \<open>
  What the two loops of \<open>reconcile\<close> leave in the place of one new step (used in the
  proofs): the last old step with its commit, or the new step itself when there is none.
\<close>

definition merged :: "step list \<Rightarrow> step \<Rightarrow> step" where
  "merged olds cur =
     (if filter (\<lambda>s. commit s = commit cur) olds = [] then cur
      else last (filter (\<lambda>s. commit s = commit cur) olds))"

section \<open>Example inputs\<close>

text \<open>
  A repository with the history A \<open>feat: add x\<close>, B \<open>tuture: housekeeping\<close>, C \<open>fix: bug\<close>
  (oldest first), as the Git binary prints it: \<open>git log --oneline\<close> lists the newest commit
  first; \<open>git show --name-only\<close> prints a header, the indented message and the changed files.
\<close>

definition scenario_git :: "string list \<Rightarrow> nat option \<times> string \<times> string" where
  "scenario_git args =
     (if args = [''log'', ''--oneline'', ''--no-merges'']
      then (Some 0, ''ccccccc fix: bug'' @ nl @ ''bbbbbbb tuture: housekeeping'' @ nl
                     @ ''aaaaaaa feat: add x'' @ nl, [])
      else if args = [''show'', ''aaaaaaa'', ''--name-only'']
      then (Some 0, ''commit aaaaaaa'' @ nl @ ''Author: dev'' @ nl @ nl @ ''    feat: add x'' @ nl
                     @ nl @ ''src/x.js'' @ nl, [])
      else if args = [''show'', ''ccccccc'', ''--name-only'']
      then (Some 0, ''commit ccccccc'' @ nl @ ''Author: dev'' @ nl @ nl @ ''    fix: bug'' @ nl
                     @ nl @ ''src/x.js'' @ nl @ ''yarn.lock'' @ nl, [])
      else if args = [''show'', ''aaaaaaa''] \<or> args = [''show'', ''ccccccc'']
      then (Some 0, ''commit'' @ nl @ nl @ ''diff --git a/src/x.js b/src/x.js'' @ nl, [])
      else (Some 128, [], ''fatal: bad revision''))"

definition scenario_env :: env where
  "scenario_env =
     \<lparr>git = scenario_git, gitInstalled = True, ignoreFiles = [''yarn.lock''],
      minimatch = (\<lambda>name pattern. name = pattern),
      parser_parse = (\<lambda>d. Inr [\<lparr>diff_path = ''src/x.js'', hunks = []\<rparr>]),
      tuturePath = ''/usr/lib/node_modules/tuture/bin/tuture'', win32 = False,
      prompt_metadata = None, confirm_init = None, confirm_destroy = None,
      io_fault = (\<lambda>p. None)\<rparr>"

text \<open>A Git working directory that holds nothing of the tool.\<close>

definition fresh_repo :: world where
  "fresh_repo =
     \<lparr>tutureRoot = False, tuture_json = None, diff_json = None, tuture_yml = None,
      gitignore = None, dotgit = True, hook = None, console = [], unhandled = []\<rparr>"

text \<open>A repository without a commit: \<open>git log\<close> exits with 128.\<close>

definition no_commits_env :: env where
  "no_commits_env =
     scenario_env\<lparr>git := (\<lambda>args. (Some 128, [],
        ''fatal: your current branch has no commits yet''))\<rparr>"

text \<open>The steps of the example repository, and its first step as the user has edited it.\<close>

definition scenario_steps :: "step list" where
  "scenario_steps =
     [\<lparr>name = ''feat: add x'', commit = ''aaaaaaa'', explain = None,
       diff = [\<lparr>file_name = ''src/x.js'', file_explain = None, collapse = None\<rparr>]\<rparr>,
      \<lparr>name = ''fix: bug'', commit = ''ccccccc'', explain = None,
       diff = [\<lparr>file_name = ''src/x.js'', file_explain = None, collapse = None\<rparr>]\<rparr>]"

definition edited_step :: step where
  "edited_step =
     \<lparr>name = ''Add x'', commit = ''aaaaaaa'', explain = Some ''We start with the module x.'',
      diff = [\<lparr>file_name = ''src/x.js'', file_explain = Some ''The new module.'',
               collapse = Some True\<rparr>]\<rparr>"

text \<open>The example repository with an initialized suite whose first step the user has edited.\<close>

definition edited_repo :: world where
  "edited_repo =
     fresh_repo\<lparr>tutureRoot := True,
       tuture_json := Some \<lparr>meta = defaultValues, steps = scenario_steps\<rparr>,
       tuture_yml := Some (Doc \<lparr>meta = defaultValues, steps = [edited_step]\<rparr>)\<rparr>"





text \<open>The example repository on a file system that refuses to write the post-commit hook.\<close>

definition readonly_hooks_env :: env where
  "readonly_hooks_env =
     scenario_env\<lparr>io_fault :=
       (\<lambda>p. if p = HookPath then Some ''EACCES: permission denied'' else None)\<rparr>"

text \<open>
  The example repository where Git fails to print the full diff of commit C, while it
  prints its diff summary.
\<close>

definition broken_show_env :: env where
  "broken_show_env =
     scenario_env\<lparr>git := (\<lambda>args.
        if args = [''show'', ''ccccccc'']
        then (Some 128, [], ''fatal: unable to read the object'')
        else scenario_git args)\<rparr>"

text \<open>
  A repository whose post-commit hook is the generated one, and one where the user has
  added a line of their own after it.
\<close>

definition generated_hook_repo :: world where
  "generated_hook_repo = edited_repo\<lparr>hook := Some (getGitHook scenario_env)\<rparr>"

definition extended_hook_repo :: world where
  "extended_hook_repo =
     edited_repo\<lparr>hook := Some (getGitHook scenario_env @ ''echo committed'' @ nl)\<rparr>"





text \<open>
  The example repository with a fourth commit D that changes no file
  (\<open>git commit --allow-empty\<close>): \<open>git show --name-only\<close> prints nothing after its message.
\<close>

definition empty_commit_env :: env where
  "empty_commit_env =
     scenario_env\<lparr>git := (\<lambda>args.
        if args = [''show'', ''ddddddd'', ''--name-only'']
        then (Some 0, ''commit ddddddd'' @ nl @ ''Author: dev'' @ nl @ nl @ ''    chore: tag'' @ nl,
              [])
        else scenario_git args)\<rparr>"

section \<open>Commands on a directory without a suite\<close>

lemma errAndExit_not_initialized:
  "errAndExit ''Tuture has not been initialized!'' w =
     (w\<lparr>console := console w @ [Fatal ''Tuture has not been initialized!'']\<rparr>, Exit 1)"
  by (simp add: errAndExit_def trim_def is_ws_def)

lemma errAndExit_nothing_to_destroy:
  "errAndExit ''No Tuture tutorial to destroy!'' w =
     (w\<lparr>console := console w @ [Fatal ''No Tuture tutorial to destroy!'']\<rparr>, Exit 1)"
  by (simp add: errAndExit_def trim_def is_ws_def)

text \<open>
  Claim C6. When the suite is absent (the support directory or \<open>tuture.yml\<close> is missing),
  \<open>reload\<close> and \<open>destroy\<close> each print one fatal line and end the process with exit code 1;
  nothing but the console changes, so the failing \<open>destroy\<close> modifies no file.
\<close>

theorem absent_suite_is_fatal:
  "\<not> ifTutureSuiteExists w \<Longrightarrow>
     reloadTuture e w =
       (w\<lparr>console := console w @ [Fatal ''Tuture has not been initialized!'']\<rparr>, Exit 1)
     \<and> destroyTuture e force w =
       (w\<lparr>console := console w @ [Fatal ''No Tuture tutorial to destroy!'']\<rparr>, Exit 1)"
  by (simp add: reloadTuture_def destroyTuture_def errAndExit_not_initialized
      errAndExit_nothing_to_destroy)

theorem absent_suite_is_fatal_witness:
  "\<not> ifTutureSuiteExists fresh_repo
   \<and> reloadTuture scenario_env fresh_repo =
       (fresh_repo\<lparr>console := [Fatal ''Tuture has not been initialized!'']\<rparr>, Exit 1)
   \<and> destroyTuture scenario_env True fresh_repo =
       (fresh_repo\<lparr>console := [Fatal ''No Tuture tutorial to destroy!'']\<rparr>, Exit 1)"
proof -
  have h: "\<not> ifTutureSuiteExists fresh_repo"
    by (simp add: ifTutureSuiteExists_def fresh_repo_def)
  have c: "console fresh_repo = []"
    by (simp add: fresh_repo_def)
  show ?thesis
    using h absent_suite_is_fatal [OF h, of scenario_env True] by (simp add: c)
qed

section \<open>Listing commits never fails\<close>

lemma getGitLogs_total: "\<exists>logs. getGitLogs e = Inr logs"
  by (simp add: getGitLogs_def split: sum.splits)

lemma getGitLogs_failure:
  "fst (git e [''log'', ''--oneline'', ''--no-merges'']) \<noteq> Some 0 \<Longrightarrow> getGitLogs e = Inr []"
  by (auto simp add: getGitLogs_def runGitCommand_def split: prod.splits)

lemma getSteps_no_logs: "getGitLogs e = Inr [] \<Longrightarrow> fst (getSteps e w) = Inr []"
  by (simp add: getSteps_def makeSteps_def)

text \<open>
  Claim C10. \<open>getGitLogs\<close> always resolves: whenever \<open>git log\<close> does not exit with code 0
  (whatever the code, or a signal), it resolves with the empty list, and building the steps
  then yields no step instead of the error.
\<close>

theorem getGitLogs_swallows_failure:
  "(\<exists>logs. getGitLogs e = Inr logs)
   \<and> (fst (git e [''log'', ''--oneline'', ''--no-merges'']) \<noteq> Some 0 \<longrightarrow>
        getGitLogs e = Inr [] \<and> fst (getSteps e w) = Inr [])"
  using getGitLogs_total [of e] getGitLogs_failure [of e] getSteps_no_logs [of e w] by blast

theorem getGitLogs_swallows_failure_witness:
  "fst (git no_commits_env [''log'', ''--oneline'', ''--no-merges'']) = Some 128
   \<and> getGitLogs no_commits_env = Inr []
   \<and> fst (getSteps no_commits_env fresh_repo) = Inr []"
proof -
  have h: "fst (git no_commits_env [''log'', ''--oneline'', ''--no-merges'']) = Some 128"
    by (simp add: no_commits_env_def)
  show ?thesis
    using h getGitLogs_swallows_failure [of no_commits_env fresh_repo] by simp
qed

section \<open>Reconciliation\<close>

lemma inner_loop_length:
  "length (foldl (\<lambda>cs' s. if c = commit s then cs'[i := s] else cs') cs olds) = length cs"
  by (induction olds arbitrary: cs) auto

lemma inner_loop_other:
  "j \<noteq> i \<Longrightarrow> foldl (\<lambda>cs' s. if c = commit s then cs'[i := s] else cs') cs olds ! j = cs ! j"
  by (induction olds arbitrary: cs) auto

lemma inner_loop_at:
  "i < length cs \<Longrightarrow>
   foldl (\<lambda>cs' s. if c = commit s then cs'[i := s] else cs') cs olds ! i =
     (if filter (\<lambda>s. commit s = c) olds = [] then cs ! i
      else last (filter (\<lambda>s. commit s = c) olds))"
proof (induction olds rule: rev_induct)
  case Nil
  then show ?case by simp
next
  case (snoc x xs)
  then show ?case by (auto simp: inner_loop_length)
qed

lemma inner_loop_eq:
  assumes "i < length cs"
  shows "foldl (\<lambda>cs' s. if c = commit s then cs'[i := s] else cs') cs olds =
     cs[i := (if filter (\<lambda>s. commit s = c) olds = [] then cs ! i
              else last (filter (\<lambda>s. commit s = c) olds))]"
proof (rule nth_equalityI)
  show "length (foldl (\<lambda>cs' s. if c = commit s then cs'[i := s] else cs') cs olds) =
      length (cs[i := (if filter (\<lambda>s. commit s = c) olds = [] then cs ! i
              else last (filter (\<lambda>s. commit s = c) olds))])"
    by (simp add: inner_loop_length)
next
  fix j
  assume "j < length (foldl (\<lambda>cs' s. if c = commit s then cs'[i := s] else cs') cs olds)"
  then have j: "j < length cs" by (simp add: inner_loop_length)
  show "foldl (\<lambda>cs' s. if c = commit s then cs'[i := s] else cs') cs olds ! j =
      cs[i := (if filter (\<lambda>s. commit s = c) olds = [] then cs ! i
              else last (filter (\<lambda>s. commit s = c) olds))] ! j"
  proof (cases "j = i")
    case True
    with assms show ?thesis by (simp add: inner_loop_at)
  next
    case False
    then show ?thesis by (simp add: inner_loop_other)
  qed
qed

lemma merged_prefix_step:
  assumes "k < length cs"
  shows "(map f (take k cs) @ drop k cs)[k := f (cs ! k)] =
     map f (take (Suc k) cs) @ drop (Suc k) cs"
proof -
  have "drop k cs = cs ! k # drop (Suc k) cs"
    using assms by (simp add: Cons_nth_drop_Suc)
  moreover have "take (Suc k) cs = take k cs @ [cs ! k]"
    using assms by (simp add: take_Suc_conv_app_nth)
  moreover have "length (map f (take k cs)) = k"
    using assms by simp
  ultimately show ?thesis
    by (simp add: list_update_append)
qed

lemma outer_loop:
  "k \<le> length cs \<Longrightarrow>
   foldl (\<lambda>cs index.
              (let currentStep = cs ! index
               in foldl (\<lambda>cs' step. if commit currentStep = commit step
                                      then cs'[index := step] else cs')
                    cs olds)) cs [0..<k]
   = map (merged olds) (take k cs) @ drop k cs"
proof (induction k)
  case 0
  then show ?case by simp
next
  case (Suc k)
  then have k: "k < length cs" by simp
  let ?r = "map (merged olds) (take k cs) @ drop k cs"
  have len: "k < length ?r" using k by simp
  have at: "?r ! k = cs ! k" using k by (simp add: nth_append)
  have "foldl (\<lambda>cs' step. if commit (?r ! k) = commit step then cs'[k := step] else cs') ?r olds
      = ?r[k := merged olds (cs ! k)]"
    unfolding inner_loop_eq [OF len] at merged_def by (simp add: eq_commute)
  also have "\<dots> = map (merged olds) (take (Suc k) cs) @ drop (Suc k) cs"
    by (rule merged_prefix_step [OF k])
  finally show ?case
    using Suc.IH k by (simp add: Let_def)
qed

lemma reconcile_map: "reconcile olds cs = map (merged olds) cs"
  using outer_loop [of "length cs" cs olds] by (simp add: reconcile_def)

lemma commit_merged: "commit (merged olds cur) = commit cur"
proof (cases "filter (\<lambda>s. commit s = commit cur) olds = []")
  case True
  then show ?thesis by (simp add: merged_def)
next
  case False
  then have "last (filter (\<lambda>s. commit s = commit cur) olds)
      \<in> set (filter (\<lambda>s. commit s = commit cur) olds)"
    by (rule last_in_set)
  with False show ?thesis by (simp add: merged_def)
qed

lemma merged_no_match:
  "\<forall>old\<in>set olds. commit old \<noteq> commit cur \<Longrightarrow> merged olds cur = cur"
  by (simp add: merged_def filter_empty_conv)

lemma merged_match:
  assumes "\<exists>old\<in>set olds. commit old = commit cur"
  shows "merged olds cur = last (filter (\<lambda>old. commit old = commit cur) olds)"
    and "merged olds cur \<in> set olds"
proof -
  from assms have ne: "filter (\<lambda>old. commit old = commit cur) olds \<noteq> []"
    by (simp add: filter_empty_conv)
  then show eq: "merged olds cur = last (filter (\<lambda>old. commit old = commit cur) olds)"
    by (simp add: merged_def)
  from last_in_set [OF ne] show "merged olds cur \<in> set olds"
    unfolding eq by simp
qed

lemma filter_key_distinct:
  "distinct (map f xs) \<Longrightarrow> x \<in> set xs \<Longrightarrow> filter (\<lambda>y. f y = f x) xs = [x]"
proof (induction xs)
  case Nil
  then show ?case by simp
next
  case (Cons a xs)
  show ?case
  proof (cases "a = x")
    case True
    have "f x \<notin> f ` set xs" using Cons.prems(1) True by simp
    then have "\<forall>y\<in>set xs. f y \<noteq> f x" by (metis imageI)
    then have "filter (\<lambda>y. f y = f x) xs = []" by (simp add: filter_empty_conv)
    with True show ?thesis by simp
  next
    case False
    with Cons.prems have "x \<in> set xs" "f a \<noteq> f x" by auto
    with Cons show ?thesis by simp
  qed
qed

lemma merged_unique:
  "distinct (map commit olds) \<Longrightarrow> old \<in> set olds \<Longrightarrow> commit old = commit cur \<Longrightarrow>
     merged olds cur = old"
  using filter_key_distinct [of commit olds old] by (simp add: merged_def)

lemma reconcile_idem:
  assumes "distinct (map commit cs)"
  shows "reconcile (reconcile olds cs) cs = reconcile olds cs"
proof -
  have "merged (map (merged olds) cs) cur = merged olds cur" if "cur \<in> set cs" for cur
  proof -
    have "filter (\<lambda>s. commit s = commit cur) (map (merged olds) cs)
        = map (merged olds) (filter (\<lambda>y. commit y = commit cur) cs)"
      by (simp add: filter_map comp_def commit_merged)
    also have "\<dots> = [merged olds cur]"
      using filter_key_distinct [OF assms that] by simp
    finally show ?thesis by (simp add: merged_def)
  qed
  then show ?thesis by (simp add: reconcile_map)
qed

lemma promise_all_Inr: "promise_all ps = Inr vs \<Longrightarrow> ps = map Inr vs"
  by (induction ps arbitrary: vs) (auto split: sum.splits)

lemma getGitDiff_fresh:
  "getGitDiff e c = Inr d \<Longrightarrow> fd \<in> set d \<Longrightarrow> file_explain fd = None \<and> collapse fd = None"
  by (auto simp: getGitDiff_def Let_def split: sum.splits)

lemma getSteps_fresh:
  assumes "fst (getSteps e w) = Inr s" and "st \<in> set s"
  shows "explain st = None \<and> (\<forall>fd\<in>set (diff st). file_explain fd = None \<and> collapse fd = None)"
proof -
  from assms(1) obtain resArr where r: "fst (makeSteps e w) = Inr resArr"
    and p: "promise_all resArr = Inr s"
    by (auto simp: getSteps_def split: prod.splits sum.splits)
  from promise_all_Inr [OF p] assms(2) have "Inr st \<in> set resArr" by auto
  with r obtain lg c d where "getGitDiff e c = Inr d"
    and "st = \<lparr>name = lg, commit = c, explain = None, diff = d\<rparr>"
    by (auto simp: makeSteps_def Let_def split: sum.splits)
  then show ?thesis using getGitDiff_fresh by auto
qed

text \<open>
  Claim C1. The merge of \<open>reload\<close> keeps the length of the list of new steps. A new step
  whose commit is the commit of some old step is replaced, at its index, by an old step with
  that commit (the last one in the old tutorial); when the old commits are pairwise
  different this is the old step itself, with its \<open>explain\<close> text and its list of file
  entries. A new step whose commit no old step has stays as \<open>getSteps\<close> computed it, and
  carries no \<open>explain\<close>, neither itself nor in its file entries.
\<close>

theorem reconcile_keeps_old_steps:
  assumes "fst (getSteps e w) = Inr currentSteps" and "i < length currentSteps"
  shows "length (reconcile oldSteps currentSteps) = length currentSteps
     \<and> ((\<exists>old\<in>set oldSteps. commit old = commit (currentSteps ! i)) \<longrightarrow>
          reconcile oldSteps currentSteps ! i
            = last (filter (\<lambda>old. commit old = commit (currentSteps ! i)) oldSteps)
          \<and> reconcile oldSteps currentSteps ! i \<in> set oldSteps
          \<and> commit (reconcile oldSteps currentSteps ! i) = commit (currentSteps ! i))
     \<and> (\<forall>old\<in>set oldSteps.
          distinct (map commit oldSteps) \<longrightarrow> commit old = commit (currentSteps ! i) \<longrightarrow>
            reconcile oldSteps currentSteps ! i = old
            \<and> explain (reconcile oldSteps currentSteps ! i) = explain old
            \<and> diff (reconcile oldSteps currentSteps ! i) = diff old)
     \<and> ((\<forall>old\<in>set oldSteps. commit old \<noteq> commit (currentSteps ! i)) \<longrightarrow>
          reconcile oldSteps currentSteps ! i = currentSteps ! i
          \<and> explain (reconcile oldSteps currentSteps ! i) = None
          \<and> (\<forall>fd\<in>set (diff (reconcile oldSteps currentSteps ! i)). file_explain fd = None))"
proof -
  have at: "reconcile oldSteps currentSteps ! i = merged oldSteps (currentSteps ! i)"
    using assms(2) by (simp add: reconcile_map)
  have mem: "currentSteps ! i \<in> set currentSteps"
    using assms(2) by simp
  have fresh: "explain (currentSteps ! i) = None
      \<and> (\<forall>fd\<in>set (diff (currentSteps ! i)). file_explain fd = None)"
    using getSteps_fresh [OF assms(1) mem] by simp
  have "length (reconcile oldSteps currentSteps) = length currentSteps"
    by (simp add: reconcile_map)
  moreover have "(\<exists>old\<in>set oldSteps. commit old = commit (currentSteps ! i)) \<longrightarrow>
          reconcile oldSteps currentSteps ! i
            = last (filter (\<lambda>old. commit old = commit (currentSteps ! i)) oldSteps)
          \<and> reconcile oldSteps currentSteps ! i \<in> set oldSteps
          \<and> commit (reconcile oldSteps currentSteps ! i) = commit (currentSteps ! i)"
    unfolding at using merged_match [of oldSteps "currentSteps ! i"]
      commit_merged [of oldSteps "currentSteps ! i"] by blast
  moreover have "\<forall>old\<in>set oldSteps.
          distinct (map commit oldSteps) \<longrightarrow> commit old = commit (currentSteps ! i) \<longrightarrow>
            reconcile oldSteps currentSteps ! i = old
            \<and> explain (reconcile oldSteps currentSteps ! i) = explain old
            \<and> diff (reconcile oldSteps currentSteps ! i) = diff old"
    unfolding at using merged_unique [of oldSteps _ "currentSteps ! i"] by simp
  moreover have "(\<forall>old\<in>set oldSteps. commit old \<noteq> commit (currentSteps ! i)) \<longrightarrow>
          reconcile oldSteps currentSteps ! i = currentSteps ! i
          \<and> explain (reconcile oldSteps currentSteps ! i) = None
          \<and> (\<forall>fd\<in>set (diff (reconcile oldSteps currentSteps ! i)). file_explain fd = None)"
    unfolding at using merged_no_match [of oldSteps "currentSteps ! i"] fresh by simp
  ultimately show ?thesis by blast
qed

lemma scenario_getSteps: "fst (getSteps scenario_env w) = Inr scenario_steps"
  by code_simp


theorem reconcile_keeps_old_steps_witness:
  "fst (getSteps scenario_env fresh_repo) = Inr scenario_steps
   \<and> length (reconcile [edited_step] scenario_steps) = 2
   \<and> reconcile [edited_step] scenario_steps ! 0 = edited_step
   \<and> explain (reconcile [edited_step] scenario_steps ! 0) = Some ''We start with the module x.''
   \<and> reconcile [edited_step] scenario_steps ! 1 = scenario_steps ! 1
   \<and> explain (reconcile [edited_step] scenario_steps ! 1) = None"
proof -
  have g: "fst (getSteps scenario_env fresh_repo) = Inr scenario_steps"
    by (rule scenario_getSteps)
  have l0: "0 < length scenario_steps" and l1: "1 < length scenario_steps"
    by (simp_all add: scenario_steps_def)
  show ?thesis
    using g reconcile_keeps_old_steps [OF g l0, of "[edited_step]"]
      reconcile_keeps_old_steps [OF g l1, of "[edited_step]"]
    by (simp add: scenario_steps_def edited_step_def)
qed

lemma makeSteps_fst_indep: "fst (makeSteps e w) = fst (makeSteps e w')"
  by (simp add: makeSteps_def Let_def split: sum.splits)

lemma getSteps_fst_indep: "fst (getSteps e w) = fst (getSteps e w')"
  using makeSteps_fst_indep [of e w w']
  by (auto simp: getSteps_def split: prod.splits sum.splits)

lemma storeDiff_frame:
  "tutureRoot (storeDiff e cs w) = tutureRoot w \<and> tuture_yml (storeDiff e cs w) = tuture_yml w
   \<and> tuture_json (storeDiff e cs w) = tuture_json w \<and> gitignore (storeDiff e cs w) = gitignore w
   \<and> dotgit (storeDiff e cs w) = dotgit w \<and> hook (storeDiff e cs w) = hook w
   \<and> console (storeDiff e cs w) = console w"
  by (auto simp: storeDiff_def write_diff_json_def split: sum.splits option.splits prod.splits)

lemma makeSteps_frame:
  "tutureRoot (snd (makeSteps e w)) = tutureRoot w \<and> tuture_yml (snd (makeSteps e w)) = tuture_yml w
   \<and> tuture_json (snd (makeSteps e w)) = tuture_json w \<and> gitignore (snd (makeSteps e w)) = gitignore w
   \<and> dotgit (snd (makeSteps e w)) = dotgit w \<and> hook (snd (makeSteps e w)) = hook w"
  by (simp add: makeSteps_def Let_def storeDiff_frame split: sum.splits)

lemma getSteps_frame:
  "tutureRoot (snd (getSteps e w)) = tutureRoot w \<and> tuture_yml (snd (getSteps e w)) = tuture_yml w
   \<and> tuture_json (snd (getSteps e w)) = tuture_json w \<and> gitignore (snd (getSteps e w)) = gitignore w
   \<and> dotgit (snd (getSteps e w)) = dotgit w \<and> hook (snd (getSteps e w)) = hook w"
  using makeSteps_frame [of e w]
  by (auto simp: getSteps_def success_def split: prod.splits sum.splits)

lemma writeTuture_Inr_iff:
  "writeTuture e t w = (Inr u, w') \<longleftrightarrow>
     io_fault e TutureJson = None \<and> io_fault e TutureYml = None \<and> tutureRoot w
     \<and> w' = w\<lparr>tuture_json := Some t, tuture_yml := Some (Doc t)\<rparr>"
  by (auto simp: writeTuture_def write_tuture_json_def write_tuture_yml_def
      split: option.splits)

lemma errAndExit_snd: "snd (errAndExit msg w) = Exit 1"
  by (simp add: errAndExit_def)

lemma reloadTuture_Completed:
  assumes "reloadTuture e w = (w1, Completed)"
  obtains t cur where "tutureRoot w" "isGitAvailable e" "tuture_yml w = Some (Doc t)"
    "fst (getSteps e w) = Inr cur" "io_fault e TutureJson = None" "io_fault e TutureYml = None"
    "w1 = success ''Reload complete!''
       ((snd (getSteps e w))\<lparr>tuture_json := Some (t\<lparr>steps := reconcile (steps t) cur\<rparr>),
          tuture_yml := Some (Doc (t\<lparr>steps := reconcile (steps t) cur\<rparr>))\<rparr>)"
proof -
  have ex: "ifTutureSuiteExists w" "isGitAvailable e"
    using assms errAndExit_snd
    by (auto simp: reloadTuture_def split: if_splits dest: arg_cong [where f = snd])
  then obtain t where t: "load_tuture_yml w = Inr t"
    using assms errAndExit_snd [of _ w]
    by (cases "load_tuture_yml w") (auto simp: reloadTuture_def dest: arg_cong [where f = snd])
  then have y: "tuture_yml w = Some (Doc t)"
    by (auto simp: load_tuture_yml_def split: option.splits yml.splits)
  obtain r wg where g: "getSteps e w = (r, wg)" by (cases "getSteps e w")
  with assms ex t obtain cur where cur: "r = Inr cur"
    by (cases r) (auto simp: reloadTuture_def)
  with assms ex t g obtain u where
    wt: "writeTuture e (t\<lparr>steps := reconcile (steps t) cur\<rparr>) wg
      = (Inr u, wg\<lparr>tuture_json := Some (t\<lparr>steps := reconcile (steps t) cur\<rparr>),
          tuture_yml := Some (Doc (t\<lparr>steps := reconcile (steps t) cur\<rparr>))\<rparr>)"
    and w1: "w1 = success ''Reload complete!''
       (wg\<lparr>tuture_json := Some (t\<lparr>steps := reconcile (steps t) cur\<rparr>),
          tuture_yml := Some (Doc (t\<lparr>steps := reconcile (steps t) cur\<rparr>))\<rparr>)"
    by (auto simp: reloadTuture_def writeTuture_Inr_iff split: prod.splits sum.splits)
  from wt have "io_fault e TutureJson = None" "io_fault e TutureYml = None"
    by (simp_all add: writeTuture_Inr_iff)
  moreover have "tutureRoot w" using ex by (simp add: ifTutureSuiteExists_def)
  ultimately show thesis
    using that [of t cur] ex y g cur w1 by simp
qed

text \<open>
  Claim C2. When \<open>reload\<close> has completed and the commits of the steps computed from the
  history are pairwise different (a commit is identified by its hash), a second \<open>reload\<close> on
  the same history completes too and writes the same \<open>tuture.yml\<close> and \<open>tuture.json\<close>.
  (\<open>tuture.yml\<close> is read back as the object that was written.)
\<close>

theorem reload_idempotent:
  assumes "reloadTuture e w = (w1, Completed)"
    and "fst (getSteps e w) = Inr currentSteps"
    and "distinct (map commit currentSteps)"
  shows "\<exists>w2. reloadTuture e w1 = (w2, Completed)
     \<and> tuture_yml w2 = tuture_yml w1 \<and> tuture_json w2 = tuture_json w1"
proof -
  from assms(1) obtain t cur where root: "tutureRoot w" and git: "isGitAvailable e"
    and cur: "fst (getSteps e w) = Inr cur"
    and fj: "io_fault e TutureJson = None" and fy: "io_fault e TutureYml = None"
    and w1: "w1 = success ''Reload complete!''
       ((snd (getSteps e w))\<lparr>tuture_json := Some (t\<lparr>steps := reconcile (steps t) cur\<rparr>),
          tuture_yml := Some (Doc (t\<lparr>steps := reconcile (steps t) cur\<rparr>))\<rparr>)"
    by (rule reloadTuture_Completed)
  from cur assms(2) have [simp]: "cur = currentSteps" by simp
  let ?t = "t\<lparr>steps := reconcile (steps t) currentSteps\<rparr>"
  have root1: "tutureRoot w1" and yml1: "tuture_yml w1 = Some (Doc ?t)"
    and json1: "tuture_json w1 = Some ?t"
    using root getSteps_frame [of e w] by (simp_all add: w1 success_def)
  obtain wg where g1: "getSteps e w1 = (Inr currentSteps, wg)"
    using getSteps_fst_indep [of e w1 w] assms(2) by (cases "getSteps e w1") simp
  have rootg: "tutureRoot wg"
    using getSteps_frame [of e w1] root1 by (simp add: g1)
  have idem: "?t\<lparr>steps := reconcile (steps ?t) currentSteps\<rparr> = ?t"
    by (simp add: reconcile_idem [OF assms(3)])
  have wt: "writeTuture e ?t wg = (Inr (), wg\<lparr>tuture_json := Some ?t, tuture_yml := Some (Doc ?t)\<rparr>)"
    using fj fy rootg by (simp add: writeTuture_Inr_iff)
  have "reloadTuture e w1 =
      (success ''Reload complete!'' (wg\<lparr>tuture_json := Some ?t, tuture_yml := Some (Doc ?t)\<rparr>),
       Completed)"
    using root1 yml1 git g1 wt idem
    by (simp add: reloadTuture_def ifTutureSuiteExists_def load_tuture_yml_def)
  then show ?thesis
    by (simp add: yml1 json1 success_def)
qed


theorem reload_idempotent_witness:
  "snd (reloadTuture scenario_env edited_repo) = Completed
   \<and> fst (getSteps scenario_env edited_repo) = Inr scenario_steps
   \<and> distinct (map commit scenario_steps)
   \<and> tuture_yml (fst (reloadTuture scenario_env edited_repo))
       = Some (Doc \<lparr>meta = defaultValues, steps = [edited_step, scenario_steps ! 1]\<rparr>)
   \<and> (\<exists>w2. reloadTuture scenario_env (fst (reloadTuture scenario_env edited_repo)) = (w2, Completed)
        \<and> tuture_yml w2 = tuture_yml (fst (reloadTuture scenario_env edited_repo))
        \<and> tuture_json w2 = tuture_json (fst (reloadTuture scenario_env edited_repo)))"
proof -
  have c: "snd (reloadTuture scenario_env edited_repo) = Completed"
    by code_simp
  then have r: "reloadTuture scenario_env edited_repo
      = (fst (reloadTuture scenario_env edited_repo), Completed)"
    by (simp add: prod_eq_iff)
  have g: "fst (getSteps scenario_env edited_repo) = Inr scenario_steps"
    by (rule scenario_getSteps)
  have d: "distinct (map commit scenario_steps)"
    by (simp add: scenario_steps_def)
  have y: "tuture_yml (fst (reloadTuture scenario_env edited_repo))
       = Some (Doc \<lparr>meta = defaultValues, steps = [edited_step, scenario_steps ! 1]\<rparr>)"
    by code_simp
  show ?thesis
    using c g d y reload_idempotent [OF r g d] by simp
qed

section \<open>Building the steps from the history\<close>



















lemma makeSteps_by_line:
  "fst (makeSteps e w) =
     (case getGitLogs e of
        Inl err \<Rightarrow> Inl err
      | Inr logs \<Rightarrow>
          Inr (map (\<lambda>log. (case getGitDiff e (take 7 log) of
                             Inl err \<Rightarrow> Inl err
                           | Inr d \<Rightarrow> Inr \<lparr>name = drop 8 log, commit = take 7 log,
                                             explain = None, diff = d\<rparr>))
                (filter (\<lambda>log. \<not> startsWith (drop 8 log) ''tuture:'') (rev logs))))"
proof (cases "getGitLogs e")
  case (Inl err)
  then show ?thesis by (simp add: makeSteps_def)
next
  case (Inr logs)
  let ?logs = "filter (\<lambda>log. \<not> startsWith (drop 8 log) ''tuture:'') (rev logs)"
  have "map (\<lambda>(log, idx).
          (case getGitDiff e (map (take 7) ?logs ! idx) of
             Inl err \<Rightarrow> Inl err
           | Inr d \<Rightarrow> Inr \<lparr>name = drop 8 log, commit = map (take 7) ?logs ! idx,
                             explain = None, diff = d\<rparr>)) (zip ?logs [0..<length ?logs])
      = map (\<lambda>log. (case getGitDiff e (take 7 log) of
             Inl err \<Rightarrow> Inl err
           | Inr d \<Rightarrow> Inr \<lparr>name = drop 8 log, commit = take 7 log,
                             explain = None, diff = d\<rparr>)) ?logs"
    by (rule nth_equalityI) (simp_all split: sum.splits)
  with Inr show ?thesis by (simp add: makeSteps_def Let_def)
qed




lemma as_read_lengths: "length (as_read cs) = length cs" "map fst (as_read cs) = map fst cs"
  by (cases cs rule: rev_cases; simp add: as_read_def)+











section \<open>The diff summary of a commit\<close>









text \<open>
  A commit that changes no file is outside the second half of the statement: after its
  message Git prints nothing, and the last block of the output, which \<open>getGitDiff\<close> takes
  for the file list, is the message.
\<close>

lemma getGitDiff_empty_commit:
  "getGitDiff empty_commit_env ''ddddddd''
     = Inr [\<lparr>file_name = ''    chore: tag'', file_explain = None, collapse = None\<rparr>]"
  by code_simp


section \<open>Rollback of a failed initialization\<close>

lemma removeTutureSuite_clears:
  "\<not> tutureRoot (removeTutureSuite w) \<and> tuture_yml (removeTutureSuite w) = None
   \<and> tuture_json (removeTutureSuite w) = None \<and> diff_json (removeTutureSuite w) = None"
  by (simp add: removeTutureSuite_def)

lemma errAndExit_frame:
  "errAndExit msg w = (w\<lparr>console := console w @ [Fatal (replace (trim msg) ''fatal: '' [])]\<rparr>, Exit 1)"
  by (simp add: errAndExit_def)

lemma init_prepare_creates_dir:
  "init_prepare e yes w = Inr (m, w1) \<Longrightarrow> \<not> tutureRoot w \<and> tutureRoot w1"
  by (auto simp: init_prepare_def mkdirSync_tutureRoot_def promptMetaData_def initGit_def
      success_def Let_def
      split: if_splits sum.splits option.splits prod.splits)

lemma write_gitignore_frame:
  "write_gitignore e s w = (r, w') \<Longrightarrow>
     tutureRoot w' = tutureRoot w \<and> tuture_yml w' = tuture_yml w \<and> tuture_json w' = tuture_json w"
  by (auto simp: write_gitignore_def split: option.splits)

lemma appendGitignore_frame:
  "appendGitignore e w = (r, w') \<Longrightarrow>
     tutureRoot w' = tutureRoot w \<and> tuture_yml w' = tuture_yml w \<and> tuture_json w' = tuture_json w"
  using write_gitignore_frame
  by (auto simp: appendGitignore_def Let_def split: option.splits if_splits)

lemma write_hook_frame:
  "write_hook e s w = (r, w') \<Longrightarrow>
     tutureRoot w' = tutureRoot w \<and> tuture_yml w' = tuture_yml w \<and> tuture_json w' = tuture_json w"
  by (auto simp: write_hook_def split: option.splits if_splits)

lemma appendGitHook_frame:
  "appendGitHook e w = (r, w') \<Longrightarrow>
     tutureRoot w' = tutureRoot w \<and> tuture_yml w' = tuture_yml w \<and> tuture_json w' = tuture_json w"
  using write_hook_frame
  by (auto simp: appendGitHook_def Let_def split: option.splits if_splits)

lemma init_try_success:
  assumes "init_try e m w = (Inr u, w')" and "tutureRoot w"
  shows "tutureRoot w' \<and> (\<exists>s. fst (getSteps e w) = Inr s
     \<and> tuture_yml w' = Some (Doc \<lparr>meta = m, steps = s\<rparr>)
     \<and> tuture_json w' = Some \<lparr>meta = m, steps = s\<rparr>)"
proof -
  obtain r wa where g: "getSteps e w = (r, wa)" by (cases "getSteps e w")
  with assms(1) obtain s where s: "r = Inr s" by (cases r) (auto simp: init_try_def)
  obtain r2 wb where wt: "writeTuture e \<lparr>meta = m, steps = s\<rparr> wa = (r2, wb)"
    by (cases "writeTuture e \<lparr>meta = m, steps = s\<rparr> wa")
  with assms(1) g s obtain u2 where r2: "r2 = Inr u2" by (cases r2) (auto simp: init_try_def)
  obtain r3 wc where ig: "appendGitignore e (success ''tuture.yml is created!'' wb) = (r3, wc)"
    by (cases "appendGitignore e (success ''tuture.yml is created!'' wb)")
  with assms(1) g s wt r2 obtain u3 where r3: "r3 = Inr u3"
    by (cases r3) (auto simp: init_try_def)
  from assms(1) g s wt r2 ig r3 have hk: "appendGitHook e wc = (Inr u, w')"
    by (simp add: init_try_def)
  from wt r2 have wb: "wb = wa\<lparr>tuture_json := Some \<lparr>meta = m, steps = s\<rparr>,
      tuture_yml := Some (Doc \<lparr>meta = m, steps = s\<rparr>)\<rparr>"
    by (simp add: writeTuture_Inr_iff)
  have "tutureRoot wa" using getSteps_frame [of e w] g assms(2) by simp
  with wb appendGitignore_frame [OF ig] appendGitHook_frame [OF hk]
  have "tutureRoot w' \<and> tuture_yml w' = Some (Doc \<lparr>meta = m, steps = s\<rparr>)
     \<and> tuture_json w' = Some \<lparr>meta = m, steps = s\<rparr>"
    by (simp add: success_def)
  moreover have "fst (getSteps e w) = Inr s" using g s by simp
  ultimately show ?thesis by (intro conjI exI [of _ s]) simp_all
qed

text \<open>
  What the \<open>catch\<close> of \<open>initTuture\<close> does. Once the support directory has been created: if
  every step of the \<open>try\<close> succeeds, the command completes and the suite is there (the
  support directory, \<open>tuture.yml\<close> and \<open>tuture.json\<close> with the same tutorial); if a step
  throws, \<open>tuture.yml\<close> and the support directory with all it holds are removed, the error
  is printed as one fatal line and the process exits with code 1. The steps that throw are
  those of \<open>init_try_step_failures\<close> below: a diff summary that fails, and the writes of
  the metadata, the ignore rule and the hook.
\<close>

lemma initTuture_rolls_back:
  assumes "init_prepare e yes w = Inr (m, w1)"
  shows "(\<forall>w2. init_try e m w1 = (Inr (), w2) \<longrightarrow>
            initTuture e yes w = (w2, Completed) \<and> tutureRoot w2
            \<and> (\<exists>s. tuture_yml w2 = Some (Doc \<lparr>meta = m, steps = s\<rparr>)
                  \<and> tuture_json w2 = Some \<lparr>meta = m, steps = s\<rparr>))
     \<and> (\<forall>err w2. init_try e m w1 = (Inl err, w2) \<longrightarrow>
            (\<exists>w'. initTuture e yes w = (w', Exit 1)
               \<and> \<not> tutureRoot w' \<and> tuture_yml w' = None
               \<and> tuture_json w' = None \<and> diff_json w' = None
               \<and> console w' = console w2 @ [Fatal (replace (trim err) ''fatal: '' [])]))"
proof (intro conjI allI impI)
  fix w2
  assume t: "init_try e m w1 = (Inr (), w2)"
  from init_prepare_creates_dir [OF assms] have "tutureRoot w1" by simp
  from init_try_success [OF t this]
  show "tutureRoot w2" and "\<exists>s. tuture_yml w2 = Some (Doc \<lparr>meta = m, steps = s\<rparr>)
      \<and> tuture_json w2 = Some \<lparr>meta = m, steps = s\<rparr>"
    by auto
  show "initTuture e yes w = (w2, Completed)"
    using assms t by (simp add: initTuture_def)
next
  fix err w2
  assume t: "init_try e m w1 = (Inl err, w2)"
  let ?w' = "(removeTutureSuite w2)\<lparr>console := console (removeTutureSuite w2)
      @ [Fatal (replace (trim err) ''fatal: '' [])]\<rparr>"
  have "initTuture e yes w = (?w', Exit 1)"
    using assms t by (simp add: initTuture_def errAndExit_frame)
  moreover have "console (removeTutureSuite w2) = console w2"
    by (simp add: removeTutureSuite_def)
  ultimately show "\<exists>w'. initTuture e yes w = (w', Exit 1)
               \<and> \<not> tutureRoot w' \<and> tuture_yml w' = None
               \<and> tuture_json w' = None \<and> diff_json w' = None
               \<and> console w' = console w2 @ [Fatal (replace (trim err) ''fatal: '' [])]"
    using removeTutureSuite_clears [of w2] by (intro exI [of _ ?w']) simp
qed


lemma init_try_step_failures:
  "fst (getSteps e w) = Inl err \<Longrightarrow> fst (init_try e m w) = Inl err"
  "getSteps e w = (Inr s, wa) \<Longrightarrow> fst (writeTuture e \<lparr>meta = m, steps = s\<rparr> wa) = Inl err \<Longrightarrow>
     fst (init_try e m w) = Inl err"
  "getSteps e w = (Inr s, wa) \<Longrightarrow> writeTuture e \<lparr>meta = m, steps = s\<rparr> wa = (Inr (), wb) \<Longrightarrow>
     fst (appendGitignore e (success ''tuture.yml is created!'' wb)) = Inl err \<Longrightarrow>
     fst (init_try e m w) = Inl err"
  "getSteps e w = (Inr s, wa) \<Longrightarrow> writeTuture e \<lparr>meta = m, steps = s\<rparr> wa = (Inr (), wb) \<Longrightarrow>
     appendGitignore e (success ''tuture.yml is created!'' wb) = (Inr (), wc) \<Longrightarrow>
     fst (appendGitHook e wc) = Inl err \<Longrightarrow>
     fst (init_try e m w) = Inl err"
  by (auto simp: init_try_def split: prod.splits sum.splits)

lemma initTuture_rolls_back_example:
  "init_prepare readonly_hooks_env True fresh_repo
     = Inr (defaultValues, fresh_repo\<lparr>tutureRoot := True\<rparr>)
   \<and> fst (init_try readonly_hooks_env defaultValues (fresh_repo\<lparr>tutureRoot := True\<rparr>))
       = Inl ''EACCES: permission denied''
   \<and> (\<exists>w'. initTuture readonly_hooks_env True fresh_repo = (w', Exit 1)
         \<and> \<not> tutureRoot w' \<and> tuture_yml w' = None \<and> tuture_json w' = None
         \<and> diff_json w' = None)"
proof -
  have p: "init_prepare readonly_hooks_env True fresh_repo
      = Inr (defaultValues, fresh_repo\<lparr>tutureRoot := True\<rparr>)"
    by code_simp
  have f: "fst (init_try readonly_hooks_env defaultValues (fresh_repo\<lparr>tutureRoot := True\<rparr>))
      = Inl ''EACCES: permission denied''"
    by code_simp
  then have t: "init_try readonly_hooks_env defaultValues (fresh_repo\<lparr>tutureRoot := True\<rparr>)
      = (Inl ''EACCES: permission denied'',
         snd (init_try readonly_hooks_env defaultValues (fresh_repo\<lparr>tutureRoot := True\<rparr>)))"
    by (simp add: prod_eq_iff)
  from initTuture_rolls_back [OF p, THEN conjunct2, rule_format, OF t]
  obtain w' where "initTuture readonly_hooks_env True fresh_repo = (w', Exit 1)"
    and "\<not> tutureRoot w'" and "tuture_yml w' = None" and "tuture_json w' = None"
    and "diff_json w' = None"
    by (elim exE conjE)
  then have "\<exists>w'. initTuture readonly_hooks_env True fresh_repo = (w', Exit 1)
         \<and> \<not> tutureRoot w' \<and> tuture_yml w' = None \<and> tuture_json w' = None
         \<and> diff_json w' = None"
    by (intro exI conjI)
  with p f show ?thesis by (intro conjI)
qed

text \<open>
  Claim C7 fails on the code for one failing step. Extracting the steps includes the
  full-diff fetches of \<open>storeDiff\<close>, which nothing awaits: when \<open>git show\<close> of commit C
  fails, nothing is thrown into the \<open>try\<close>, so nothing is rolled back. The command
  completes and leaves the support directory and \<open>tuture.yml\<close> without \<open>diff.json\<close>.
\<close>

theorem failed_full_diff_is_not_rolled_back:
  "fst (git broken_show_env [''show'', ''ccccccc'']) = Some 128
   \<and> init_prepare broken_show_env True fresh_repo
       = Inr (defaultValues, fresh_repo\<lparr>tutureRoot := True\<rparr>)
   \<and> fst (init_try broken_show_env defaultValues (fresh_repo\<lparr>tutureRoot := True\<rparr>)) = Inr ()
   \<and> snd (initTuture broken_show_env True fresh_repo) = Completed
   \<and> tutureRoot (fst (initTuture broken_show_env True fresh_repo))
   \<and> tuture_yml (fst (initTuture broken_show_env True fresh_repo))
       = Some (Doc \<lparr>meta = defaultValues, steps = scenario_steps\<rparr>)
   \<and> tuture_json (fst (initTuture broken_show_env True fresh_repo))
       = Some \<lparr>meta = defaultValues, steps = scenario_steps\<rparr>
   \<and> diff_json (fst (initTuture broken_show_env True fresh_repo)) = None"
  by code_simp

section \<open>The post-commit hook on teardown\<close>

lemma removeGitHook_generated:
  "hook w = Some (getGitHook e) \<Longrightarrow> removeGitHook e w = (Inr (), w\<lparr>hook := None\<rparr>)"
  by (simp add: removeGitHook_def)

lemma removeGitHook_generated_example:
  "removeGitHook scenario_env generated_hook_repo = (Inr (), generated_hook_repo\<lparr>hook := None\<rparr>)"
  by (rule removeGitHook_generated) (simp add: generated_hook_repo_def)

text \<open>
  Claim C9 fails on the code where the user has extended the hook. The generated hook is
  removed when it is untouched (\<open>removeGitHook_generated\<close>). Otherwise
  \<open>hook.replace('tuture reload', '')\<close> deletes only the first occurrence of these two
  words: of the injected line \<open>/usr/lib/node_modules/tuture/bin/tuture reload\<close> the path
  of the directory stays behind as a line of the hook.
\<close>

theorem removeGitHook_leaves_path_fragment:
  "hook extended_hook_repo
     = Some (''#!/bin/sh'' @ nl @ ''/usr/lib/node_modules/tuture/bin/tuture reload'' @ nl
             @ ''echo committed'' @ nl)
   \<and> removeGitHook scenario_env extended_hook_repo
     = (Inr (), extended_hook_repo\<lparr>hook :=
          Some (''#!/bin/sh'' @ nl @ ''/usr/lib/node_modules/tuture/bin/'' @ nl
                @ ''echo committed'' @ nl)\<rparr>)"
  by code_simp

section \<open>Failing diff fetches\<close>

lemma promise_all_fails_fast: "Inl err \<in> set ps \<Longrightarrow> \<exists>err'. promise_all ps = Inl err'"
  by (induction ps) (auto split: sum.splits)

lemma storeDiff_writes_complete_archive:
  "diff_json (storeDiff e commits w) \<noteq> diff_json w \<Longrightarrow>
     \<exists>diffs. promise_all (map (fetchDiff e) commits) = Inr diffs
       \<and> diff_json (storeDiff e commits w) = Some diffs"
  by (auto simp: storeDiff_def write_diff_json_def split: sum.splits option.splits if_splits)

text \<open>
  Whatever \<open>gitdiff-parser\<close> does on the full diffs, also when it throws, the steps are
  the same: nothing of \<open>storeDiff\<close> reaches \<open>getSteps\<close>.
\<close>

lemma getGitLogs_ignores_parser: "getGitLogs (e\<lparr>parser_parse := pp\<rparr>) = getGitLogs e"
  by (simp add: getGitLogs_def runGitCommand_def)

lemma getGitDiff_ignores_parser: "getGitDiff (e\<lparr>parser_parse := pp\<rparr>) c = getGitDiff e c"
proof -
  have "ignored (e\<lparr>parser_parse := pp\<rparr>) = ignored e"
    by (rule ext) (simp add: ignored_def)
  then show ?thesis
    by (simp add: getGitDiff_def runGitCommand_def Let_def cong: sum.case_cong)
qed

lemma getSteps_ignores_parser: "fst (getSteps (e\<lparr>parser_parse := pp\<rparr>) w) = fst (getSteps e w)"
proof -
  have "fst (makeSteps (e\<lparr>parser_parse := pp\<rparr>) w) = fst (makeSteps e w)"
    by (simp only: makeSteps_by_line getGitLogs_ignores_parser getGitDiff_ignores_parser)
  then show ?thesis
    by (auto simp: getSteps_def split: prod.splits sum.splits)
qed

text \<open>
  Claim C8 fails on the code for the full-diff fetches. \<open>storeDiff\<close> does not await them:
  when Git fails on \<open>git show\<close> of commit C, no \<open>diff.json\<close> is written and the rejection is
  handled by nobody, but \<open>init\<close> and \<open>reload\<close> still write \<open>tuture.yml\<close> and complete.
\<close>

theorem failed_full_diff_is_not_fatal:
  "fst (git broken_show_env [''show'', ''ccccccc'']) = Some 128
   \<and> snd (initTuture broken_show_env True fresh_repo) = Completed
   \<and> tuture_yml (fst (initTuture broken_show_env True fresh_repo))
       = Some (Doc \<lparr>meta = defaultValues, steps = scenario_steps\<rparr>)
   \<and> diff_json (fst (initTuture broken_show_env True fresh_repo)) = None
   \<and> unhandled (fst (initTuture broken_show_env True fresh_repo))
       = [''fatal: unable to read the object'']
   \<and> snd (reloadTuture broken_show_env edited_repo) = Completed
   \<and> tuture_yml (fst (reloadTuture broken_show_env edited_repo))
       = Some (Doc \<lparr>meta = defaultValues, steps = [edited_step, scenario_steps ! 1]\<rparr>)"
  by code_simp

end
